theory Spec2Isabelle
  imports Main
begin

section \<open>The toolkit types the LED code relies on\<close>

text \<open>
  The C++ type \<open>int\<close> is modelled by the integers. Identifiers count the widgets of
  the collection and a blink speed is stored as it is passed, so these numbers stay
  inside the 32-bit range, where the two agree. The one multiplication of the program,
  \<open>seconds * 1000\<close> in \<open>setDuration\<close>, is a 32-bit multiplication that leaves the
  range from \<open>seconds = 2147484\<close> on; \<open>int32\<close> writes out the wrap-around of the
  compiled code.

  A colour is either the invalid colour (what a cancelled colour dialog returns) or a
  quadruple of red, green, blue and alpha. \<open>Qt::transparent\<close> is the quadruple with
  every component 0 and \<open>Qt::white\<close> the opaque quadruple with every colour
  component 255; \<open>operator!=\<close> of the source is inequality of these values.
\<close>

definition int32 :: "int \<Rightarrow> int" where
  "int32 x = (x + 2147483648) mod 4294967296 - 2147483648"

datatype QColor = Invalid | Rgba int int int int

definition transparent :: QColor where
  "transparent = Rgba 0 0 0 0"

definition white :: QColor where
  "white = Rgba 255 255 255 255"

definition isValid :: "QColor \<Rightarrow> bool" where
  "isValid c = (c \<noteq> Invalid)"

text \<open>
  A timer is running (\<open>active\<close>) or not and remembers its interval in milliseconds.
  \<open>start(msec)\<close> sets the interval and (re)starts the timer, \<open>stop()\<close> halts it.
  The source never makes a timer single-shot, so a timer that has fired keeps running
  and fires again after each interval until it is stopped.
\<close>

record QTimer =
  active :: bool
  interval :: int

definition new_QTimer :: QTimer where
  "new_QTimer = \<lparr>active = False, interval = 0\<rparr>"

definition timer_start :: "int \<Rightarrow> QTimer \<Rightarrow> QTimer" where
  "timer_start msec t = t\<lparr>interval := msec, active := True\<rparr>"

definition timer_stop :: "QTimer \<Rightarrow> QTimer" where
  "timer_stop t = t\<lparr>active := False\<rparr>"

section \<open>The LED unit (VirtualLED.cpp)\<close>

record VirtualLED =
  currentColor :: QColor
  ledId :: int
  state :: bool
  blinkOn :: bool
  blinkTimer :: QTimer
  blinkSpeed :: int
  offTimer :: QTimer

text \<open>The constructor: transparent, flag off, phase visible, both timers idle, speed 0.\<close>

definition new_VirtualLED :: "int \<Rightarrow> VirtualLED" where
  "new_VirtualLED i =
     \<lparr>currentColor = transparent, ledId = i, state = False, blinkOn = True,
      blinkTimer = new_QTimer, blinkSpeed = 0, offTimer = new_QTimer\<rparr>"

definition setColor :: "QColor \<Rightarrow> VirtualLED \<Rightarrow> VirtualLED" where
  "setColor color led = led\<lparr>currentColor := color, state := (color \<noteq> transparent)\<rparr>"

definition getId :: "VirtualLED \<Rightarrow> int" where
  "getId led = ledId led"

definition setId :: "int \<Rightarrow> VirtualLED \<Rightarrow> VirtualLED" where
  "setId newId led = led\<lparr>ledId := newId\<rparr>"

definition isOn :: "VirtualLED \<Rightarrow> bool" where
  "isOn led = (currentColor led \<noteq> transparent)"

definition stopOffTimer :: "VirtualLED \<Rightarrow> VirtualLED" where
  "stopOffTimer led = led\<lparr>offTimer := timer_stop (offTimer led)\<rparr>"

definition turnOn :: "VirtualLED \<Rightarrow> VirtualLED" where
  "turnOn led =
     (if \<not> state led then
        (let led1 = led\<lparr>state := True, blinkOn := True\<rparr>;
             led2 = setColor white led1
         in led2\<lparr>offTimer := timer_stop (offTimer led2)\<rparr>)
      else led)"

definition turnOff :: "VirtualLED \<Rightarrow> VirtualLED" where
  "turnOff led =
     (if state led then
        (let led1 = led\<lparr>state := False, blinkTimer := timer_stop (blinkTimer led),
                        blinkOn := True\<rparr>
         in setColor transparent led1)
      else led)"

definition setBlinkSpeed :: "int \<Rightarrow> VirtualLED \<Rightarrow> VirtualLED" where
  "setBlinkSpeed speed led =
     (let led1 = led\<lparr>blinkSpeed := speed, blinkTimer := timer_stop (blinkTimer led)\<rparr>
      in if blinkSpeed led1 > 0
         then led1\<lparr>blinkTimer := timer_start (blinkSpeed led1) (blinkTimer led1)\<rparr>
         else led1\<lparr>blinkOn := True\<rparr>)"

definition getBlinkSpeed :: "VirtualLED \<Rightarrow> int" where
  "getBlinkSpeed led = blinkSpeed led"

text \<open>
  \<open>setDuration\<close> starts the off timer with the 32-bit product of the seconds and 1000.
  Up to 2147483 seconds that is the product itself. Beyond, it is a wrapped number that
  can be negative; the record keeps it as the interval passed, and nothing is stated
  below about a timer started that way.
\<close>

definition setDuration :: "int \<Rightarrow> VirtualLED \<Rightarrow> VirtualLED" where
  "setDuration seconds led =
     (if seconds > 0
      then led\<lparr>offTimer := timer_start (int32 (seconds * 1000)) (offTimer led)\<rparr>
      else led)"

text \<open>
  The two slots connected in the constructor, as the event loop runs them: a timer
  that is not running delivers nothing; one that is running delivers its timeout and
  keeps running. The blink timer's slot flips the phase, the off timer's slot is
  \<open>turnOff\<close>.
\<close>

definition blinkTimer_timeout :: "VirtualLED \<Rightarrow> VirtualLED" where
  "blinkTimer_timeout led =
     (if active (blinkTimer led) then led\<lparr>blinkOn := \<not> blinkOn led\<rparr> else led)"

definition offTimer_timeout :: "VirtualLED \<Rightarrow> VirtualLED" where
  "offTimer_timeout led = (if active (offTimer led) then turnOff led else led)"

text \<open>\<open>mousePressEvent\<close>: only the left button toggles, branching on the flag.\<close>

datatype MouseButton = LeftButton | OtherButton

definition mousePressEvent :: "MouseButton \<Rightarrow> VirtualLED \<Rightarrow> VirtualLED" where
  "mousePressEvent button led =
     (if button = LeftButton then (if state led then turnOff led else turnOn led)
      else led)"

text \<open>
  Everything that can happen to one LED: its public operations, a mouse press, and the
  two timeouts.
\<close>

datatype led_op =
    SetColor QColor
  | SetId int
  | TurnOn
  | TurnOff
  | SetBlinkSpeed int
  | SetDuration int
  | StopOffTimer
  | MousePress MouseButton
  | BlinkTimeout
  | OffTimeout

fun apply_led_op :: "led_op \<Rightarrow> VirtualLED \<Rightarrow> VirtualLED" where
  "apply_led_op (SetColor c) led = setColor c led"
| "apply_led_op (SetId i) led = setId i led"
| "apply_led_op TurnOn led = turnOn led"
| "apply_led_op TurnOff led = turnOff led"
| "apply_led_op (SetBlinkSpeed s) led = setBlinkSpeed s led"
| "apply_led_op (SetDuration s) led = setDuration s led"
| "apply_led_op StopOffTimer led = stopOffTimer led"
| "apply_led_op (MousePress b) led = mousePressEvent b led"
| "apply_led_op BlinkTimeout led = blinkTimer_timeout led"
| "apply_led_op OffTimeout led = offTimer_timeout led"

fun run_led_ops :: "led_op list \<Rightarrow> VirtualLED \<Rightarrow> VirtualLED" where
  "run_led_ops [] led = led"
| "run_led_ops (x # xs) led = run_led_ops xs (apply_led_op x led)"

text \<open>
  The operations whose code never mentions \<open>offTimer\<close>: recolouring, renumbering,
  turning off, setting the blink speed, and the two timer slots.
\<close>

fun keeps_offTimer :: "led_op \<Rightarrow> bool" where
  "keeps_offTimer (SetColor c) = True"
| "keeps_offTimer (SetId i) = True"
| "keeps_offTimer TurnOn = False"
| "keeps_offTimer TurnOff = True"
| "keeps_offTimer (SetBlinkSpeed s) = True"
| "keeps_offTimer (SetDuration s) = False"
| "keeps_offTimer StopOffTimer = False"
| "keeps_offTimer (MousePress b) = False"
| "keeps_offTimer BlinkTimeout = True"
| "keeps_offTimer OffTimeout = True"

section \<open>The collection manager (UserInterface.cpp)\<close>

text \<open>
  The manager owns the list of LEDs in display order and the identifier of the next LED.
  The widgets of the window (layouts, buttons, the grid) carry no state the operations
  below branch on and are left out; \<open>updateGridLayout\<close> only re-adds the widgets to
  the grid in list order.
\<close>

record UserInterface =
  leds :: "VirtualLED list"
  nextLedId :: int

definition new_UserInterface :: UserInterface where
  "new_UserInterface = \<lparr>leds = [], nextLedId = 1\<rparr>"

text \<open>
  A slot returns nothing; what it reports is the warning box it opens, if any. The
  result of an operation is that warning together with the new state.
\<close>

datatype warning = NoLEDsAvailable | AllAlreadyOn | AllAlreadyOff | NoLEDOn

definition addNewLED :: "UserInterface \<Rightarrow> UserInterface" where
  "addNewLED ui =
     (let newLed = new_VirtualLED (nextLedId ui)
      in ui\<lparr>leds := leds ui @ [newLed], nextLedId := nextLedId ui + 1\<rparr>)"

definition turnAllLEDsOn :: "UserInterface \<Rightarrow> warning option \<times> UserInterface" where
  "turnAllLEDsOn ui =
     (if leds ui = [] then (Some NoLEDsAvailable, ui)
      else if list_all isOn (leds ui) then (Some AllAlreadyOn, ui)
      else (None,
            ui\<lparr>leds := map (\<lambda>led. stopOffTimer (if \<not> isOn led then setColor white led else led))
                           (leds ui)\<rparr>))"

definition turnAllLEDsOff :: "UserInterface \<Rightarrow> warning option \<times> UserInterface" where
  "turnAllLEDsOff ui =
     (if leds ui = [] then (Some NoLEDsAvailable, ui)
      else
        (let allAlreadyOff = list_all (\<lambda>led. \<not> isOn led) (leds ui);
             ui' = ui\<lparr>leds := map (\<lambda>led. if isOn led then turnOff led else led) (leds ui)\<rparr>
         in (if allAlreadyOff then Some AllAlreadyOff else None, ui')))"

definition removeAllLEDs :: "UserInterface \<Rightarrow> warning option \<times> UserInterface" where
  "removeAllLEDs ui =
     (if leds ui = [] then (Some NoLEDsAvailable, ui)
      else (None, ui\<lparr>leds := [], nextLedId := 1\<rparr>))"

text \<open>
  \<open>findLEDById\<close> returns the first LED whose identifier matches, or \<open>nullptr\<close>. The
  pointers of the list are pairwise different objects, so the pointer is modelled by
  the position of that LED in the list and \<open>nullptr\<close> by \<open>None\<close>.
\<close>

fun findLEDById :: "int \<Rightarrow> VirtualLED list \<Rightarrow> nat option" where
  "findLEDById i [] = None"
| "findLEDById i (led # rest) =
     (if getId led = i then Some 0 else map_option Suc (findLEDById i rest))"

text \<open>The loop of \<open>reassignLEDIds\<close>: the counter starts at 1 and ends as \<open>nextLedId\<close>.\<close>

fun reassign_from :: "int \<Rightarrow> VirtualLED list \<Rightarrow> VirtualLED list \<times> int" where
  "reassign_from i [] = ([], i)"
| "reassign_from i (led # rest) =
     (let (rest', j) = reassign_from (i + 1) rest in (setId i led # rest', j))"

definition reassignLEDIds :: "UserInterface \<Rightarrow> UserInterface" where
  "reassignLEDIds ui =
     (let (ls, i) = reassign_from 1 (leds ui) in ui\<lparr>leds := ls, nextLedId := i\<rparr>)"

text \<open>\<open>removeOne\<close> of the pointer found takes out the LED at the position found.\<close>

definition removeLED :: "int \<Rightarrow> UserInterface \<Rightarrow> UserInterface" where
  "removeLED i ui =
     (case findLEDById i (leds ui) of
        None \<Rightarrow> ui
      | Some k \<Rightarrow> reassignLEDIds (ui\<lparr>leds := take k (leds ui) @ drop (Suc k) (leds ui)\<rparr>))"

definition changeLEDColor :: "int \<Rightarrow> QColor \<Rightarrow> UserInterface \<Rightarrow> UserInterface" where
  "changeLEDColor i color ui =
     (case findLEDById i (leds ui) of
        None \<Rightarrow> ui
      | Some k \<Rightarrow> ui\<lparr>leds := (leds ui)[k := setColor color (leds ui ! k)]\<rparr>)"

text \<open>
  An event for the LED widget at a position of the list changes that LED; an event for a
  position that holds no widget cannot occur and changes nothing.
\<close>

definition on_led :: "nat \<Rightarrow> (VirtualLED \<Rightarrow> VirtualLED) \<Rightarrow> UserInterface \<Rightarrow> UserInterface" where
  "on_led k f ui =
     (if k < length (leds ui) then ui\<lparr>leds := (leds ui)[k := f (leds ui ! k)]\<rparr> else ui)"

text \<open>
  A colour dialog, a number dialog and a context menu are modal: the call returns when
  the user has answered, and until then the toolkit keeps running the event loop.
  Input to the window is blocked meanwhile, but the timers of the LEDs keep expiring
  and their slots run. The expiries delivered while a dialog or menu is open are an
  argument of the operation that opens it, in the order of their delivery.
\<close>

datatype timer_event = BlinkTimerFired nat | OffTimerFired nat

fun deliver :: "timer_event \<Rightarrow> UserInterface \<Rightarrow> UserInterface" where
  "deliver (BlinkTimerFired k) ui = on_led k blinkTimer_timeout ui"
| "deliver (OffTimerFired k) ui = on_led k offTimer_timeout ui"

fun while_dialog_open :: "timer_event list \<Rightarrow> UserInterface \<Rightarrow> UserInterface" where
  "while_dialog_open [] ui = ui"
| "while_dialog_open (e # es) ui = while_dialog_open es (deliver e ui)"

text \<open>
  The three operations that open a dialog take, besides those expiries, what the dialog
  returns: the colour picked (the invalid colour when the colour dialog is cancelled),
  or the number entered (\<open>None\<close> when the number dialog is cancelled). The two checks
  read the state before the dialog opens; the loop reads \<open>isOn\<close> again after it has
  closed. A warning box is the last thing its branch does, so what happens while it is
  shown is what happens after the operation.
\<close>

definition changeAllLEDsColor ::
  "timer_event list \<Rightarrow> QColor \<Rightarrow> UserInterface \<Rightarrow> warning option \<times> UserInterface" where
  "changeAllLEDsColor during color ui =
     (if leds ui = [] then (Some NoLEDsAvailable, ui)
      else if \<not> list_ex isOn (leds ui) then (Some NoLEDOn, ui)
      else
        (let ui' = while_dialog_open during ui
         in if isValid color
            then (None, ui'\<lparr>leds := map (\<lambda>led. if isOn led then setColor color led else led)
                                      (leds ui')\<rparr>)
            else (None, ui')))"

definition setAllLEDsBlinkSpeed ::
  "timer_event list \<Rightarrow> int option \<Rightarrow> UserInterface \<Rightarrow> warning option \<times> UserInterface" where
  "setAllLEDsBlinkSpeed during entered ui =
     (if leds ui = [] then (Some NoLEDsAvailable, ui)
      else if \<not> list_ex (\<lambda>led. isOn led \<or> getBlinkSpeed led > 0) (leds ui)
      then (Some NoLEDOn, ui)
      else
        (let ui' = while_dialog_open during ui
         in case entered of
              Some speed \<Rightarrow>
                (None, ui'\<lparr>leds := map (\<lambda>led. if isOn led then setBlinkSpeed speed led else led)
                                      (leds ui')\<rparr>)
            | None \<Rightarrow> (None, ui')))"

definition setDurationForOnLEDs ::
  "timer_event list \<Rightarrow> int option \<Rightarrow> UserInterface \<Rightarrow> warning option \<times> UserInterface" where
  "setDurationForOnLEDs during entered ui =
     (if leds ui = [] then (Some NoLEDsAvailable, ui)
      else if \<not> list_ex isOn (leds ui) then (Some NoLEDOn, ui)
      else
        (let ui' = while_dialog_open during ui
         in case entered of
              Some duration \<Rightarrow>
                (None, ui'\<lparr>leds := map (\<lambda>led. if isOn led then setDuration duration led else led)
                                      (leds ui')\<rparr>)
            | None \<Rightarrow> (None, ui')))"

text \<open>
  The context menu of the LED widget at a position. The menu is built first: it always
  offers Remove, and the other three entries only if the flag is set at that moment.
  Then the menu, and the dialog of the entry chosen, are open, and at last the entry
  acts on the LED as it is then, without reading the flag again. Remove emits
  \<open>removed(ledId)\<close> to \<open>removeLED\<close>; Change Color applies a valid colour to the LED
  and emits \<open>colorChanged(ledId, color)\<close> to \<open>changeLEDColor\<close>. An entry that the
  menu does not offer cannot be chosen: the menu is then as good as dismissed.
\<close>

datatype menu_action =
    MenuRemove
  | MenuChangeColor QColor
  | MenuSetBlinkingSpeed "int option"
  | MenuSetDuration "int option"
  | MenuDismissed

definition contextMenuEvent ::
  "nat \<Rightarrow> timer_event list \<Rightarrow> menu_action \<Rightarrow> UserInterface \<Rightarrow> UserInterface" where
  "contextMenuEvent k during action ui =
     (if k < length (leds ui) then
        (let offered = state (leds ui ! k);
             ui' = while_dialog_open during ui
         in case action of
              MenuRemove \<Rightarrow> removeLED (ledId (leds ui' ! k)) ui'
            | MenuChangeColor c \<Rightarrow>
                if offered \<and> isValid c
                then changeLEDColor (ledId (leds ui' ! k)) c (on_led k (setColor c) ui')
                else ui'
            | MenuSetBlinkingSpeed entered \<Rightarrow>
                (case entered of
                   Some speed \<Rightarrow> if offered then on_led k (setBlinkSpeed speed) ui' else ui'
                 | None \<Rightarrow> ui')
            | MenuSetDuration entered \<Rightarrow>
                (case entered of
                   Some duration \<Rightarrow> if offered then on_led k (setDuration duration) ui' else ui'
                 | None \<Rightarrow> ui')
            | MenuDismissed \<Rightarrow> ui')
      else ui)"

text \<open>
  Everything that can happen to the manager: its slots (the buttons, and the two slots
  the LED signals reach, with any argument) and the events of its LED widgets.
\<close>

datatype ui_op =
    AddNewLED
  | TurnAllLEDsOn
  | TurnAllLEDsOff
  | RemoveAllLEDs
  | RemoveLED int
  | ChangeLEDColor int QColor
  | ChangeAllLEDsColor "timer_event list" QColor
  | SetAllLEDsBlinkSpeed "timer_event list" "int option"
  | SetDurationForOnLEDs "timer_event list" "int option"
  | ShowHelpDialog
  | LedMousePress nat MouseButton
  | LedBlinkTimeout nat
  | LedOffTimeout nat
  | LedContextMenu nat "timer_event list" menu_action

fun apply_ui_op :: "ui_op \<Rightarrow> UserInterface \<Rightarrow> UserInterface" where
  "apply_ui_op AddNewLED ui = addNewLED ui"
| "apply_ui_op TurnAllLEDsOn ui = snd (turnAllLEDsOn ui)"
| "apply_ui_op TurnAllLEDsOff ui = snd (turnAllLEDsOff ui)"
| "apply_ui_op RemoveAllLEDs ui = snd (removeAllLEDs ui)"
| "apply_ui_op (RemoveLED i) ui = removeLED i ui"
| "apply_ui_op (ChangeLEDColor i c) ui = changeLEDColor i c ui"
| "apply_ui_op (ChangeAllLEDsColor d c) ui = snd (changeAllLEDsColor d c ui)"
| "apply_ui_op (SetAllLEDsBlinkSpeed d e) ui = snd (setAllLEDsBlinkSpeed d e ui)"
| "apply_ui_op (SetDurationForOnLEDs d e) ui = snd (setDurationForOnLEDs d e ui)"
| "apply_ui_op ShowHelpDialog ui = ui"
| "apply_ui_op (LedMousePress k b) ui = on_led k (mousePressEvent b) ui"
| "apply_ui_op (LedBlinkTimeout k) ui = on_led k blinkTimer_timeout ui"
| "apply_ui_op (LedOffTimeout k) ui = on_led k offTimer_timeout ui"
| "apply_ui_op (LedContextMenu k d a) ui = contextMenuEvent k d a ui"

fun run_ui_ops :: "ui_op list \<Rightarrow> UserInterface \<Rightarrow> UserInterface" where
  "run_ui_ops [] ui = ui"
| "run_ui_ops (x # xs) ui = run_ui_ops xs (apply_ui_op x ui)"

text \<open>
  The invariant of the collection: the identifiers are 1, 2, ..., n in list order and
  the next identifier is n + 1.
\<close>

definition ids_sequential :: "UserInterface \<Rightarrow> bool" where
  "ids_sequential ui =
     (map getId (leds ui) = [1..int (length (leds ui))]
      \<and> nextLedId ui = int (length (leds ui)) + 1)"

section \<open>Example states\<close>

definition red :: QColor where
  "red = Rgba 255 0 0 255"

text \<open>An LED turned on, given 5 seconds, set blinking, whose blink timer fired once.\<close>

definition blinking_led :: VirtualLED where
  "blinking_led =
     blinkTimer_timeout (setBlinkSpeed 500 (setDuration 5 (turnOn (new_VirtualLED 1))))"

text \<open>An LED turned on, given 5 seconds and turned off before they passed.\<close>

definition timed_off_led :: VirtualLED where
  "timed_off_led = turnOff (setDuration 5 (turnOn (new_VirtualLED 1)))"

text \<open>An LED turned on, blinking every 250 ms, in its dimmed phase.\<close>

definition dimmed_led :: VirtualLED where
  "dimmed_led = blinkTimer_timeout (setBlinkSpeed 250 (turnOn (new_VirtualLED 1)))"

text \<open>An LED turned on and given 2 seconds.\<close>

definition timed_on_led :: VirtualLED where
  "timed_on_led = setDuration 2 (turnOn (new_VirtualLED 1))"

text \<open>A new LED (off) whose blink speed was set, and an LED turned on first.\<close>

definition off_blinking_led :: VirtualLED where
  "off_blinking_led = setBlinkSpeed 500 (new_VirtualLED 1)"

definition on_blinking_led :: VirtualLED where
  "on_blinking_led = setBlinkSpeed 500 (turnOn (new_VirtualLED 1))"

definition blue :: QColor where
  "blue = Rgba 0 0 255 255"

text \<open>
  Three LEDs: the first turned on and recoloured red, the second turned on and given
  one second, the third left off.
\<close>

definition three_leds :: UserInterface where
  "three_leds =
     run_ui_ops [AddNewLED, AddNewLED, AddNewLED,
                 LedMousePress 0 LeftButton, LedContextMenu 0 [] (MenuChangeColor red),
                 LedMousePress 1 LeftButton, LedContextMenu 1 [] (MenuSetDuration (Some 1))]
       new_UserInterface"

text \<open>The same three LEDs after Turn All LEDs On, and two new LEDs, both off.\<close>

definition all_on_leds :: UserInterface where
  "all_on_leds = snd (turnAllLEDsOn three_leds)"

definition all_off_leds :: UserInterface where
  "all_off_leds = addNewLED (addNewLED new_UserInterface)"

section \<open>Facts about one LED\<close>

lemma white_not_transparent: "white \<noteq> transparent"
  by (simp add: white_def transparent_def)

lemmas led_defs = new_VirtualLED_def new_QTimer_def timer_start_def timer_stop_def
  setColor_def turnOn_def turnOff_def setBlinkSpeed_def setDuration_def stopOffTimer_def
  blinkTimer_timeout_def offTimer_timeout_def mousePressEvent_def isOn_def getBlinkSpeed_def
  Let_def white_def transparent_def int32_def

lemma apply_led_op_flag:
  "state led = isOn led \<Longrightarrow> state (apply_led_op x led) = isOn (apply_led_op x led)"
  by (cases x)
     (simp_all add: setColor_def setId_def turnOn_def turnOff_def setBlinkSpeed_def
        setDuration_def stopOffTimer_def mousePressEvent_def blinkTimer_timeout_def
        offTimer_timeout_def isOn_def Let_def white_not_transparent)

lemma run_led_ops_flag:
  "state led = isOn led \<Longrightarrow> state (run_led_ops xs led) = isOn (run_led_ops xs led)"
proof (induction xs arbitrary: led)
  case Nil
  then show ?case by simp
next
  case (Cons x xs)
  from Cons.prems have "state (apply_led_op x led) = isOn (apply_led_op x led)"
    by (rule apply_led_op_flag)
  then show ?case by (simp add: Cons.IH)
qed

lemma int32_in_range:
  "- 2147483648 \<le> x \<Longrightarrow> x \<le> 2147483647 \<Longrightarrow> int32 x = x"
  by (simp add: int32_def)

lemma keeps_offTimer_apply:
  "keeps_offTimer x \<Longrightarrow> offTimer (apply_led_op x led) = offTimer led"
  by (cases x)
     (simp_all add: setColor_def setId_def turnOff_def setBlinkSpeed_def
        blinkTimer_timeout_def offTimer_timeout_def Let_def)

lemma keeps_offTimer_run:
  "list_all keeps_offTimer xs \<Longrightarrow> offTimer (run_led_ops xs led) = offTimer led"
  by (induction xs arbitrary: led) (simp_all add: keeps_offTimer_apply)

lemma blink_toggle:
  "active (blinkTimer led) \<Longrightarrow>
     active (blinkTimer ((blinkTimer_timeout ^^ n) led))
     \<and> blinkOn ((blinkTimer_timeout ^^ n) led) = (if even n then blinkOn led else \<not> blinkOn led)"
  by (induction n) (auto simp: blinkTimer_timeout_def)

lemma blink_idle:
  "\<not> active (blinkTimer led) \<Longrightarrow> (blinkTimer_timeout ^^ n) led = led"
  by (induction n) (auto simp: blinkTimer_timeout_def)

section \<open>The LED state machine\<close>

text \<open>
  C1, as the code has it. For an LED that is on, \<open>turnOff()\<close> leaves it off with the
  blink timer stopped and the blink phase visible, and leaves the auto-off timer as it
  was; \<open>setColor(transparent)\<close> leaves it off and changes neither the blink timer nor
  the blink phase nor the auto-off timer.
\<close>

theorem C1_turnOff:
  assumes "isOn led" and "state led = isOn led"
  shows "\<not> isOn (turnOff led) \<and> \<not> state (turnOff led)
         \<and> \<not> active (blinkTimer (turnOff led)) \<and> blinkOn (turnOff led)
         \<and> offTimer (turnOff led) = offTimer led
         \<and> \<not> isOn (setColor transparent led) \<and> \<not> state (setColor transparent led)
         \<and> blinkTimer (setColor transparent led) = blinkTimer led
         \<and> blinkOn (setColor transparent led) = blinkOn led
         \<and> offTimer (setColor transparent led) = offTimer led"
  using assms by (simp add: turnOff_def setColor_def isOn_def timer_stop_def Let_def)

theorem C1_witness:
  "isOn blinking_led \<and> state blinking_led = isOn blinking_led
   \<and> \<not> isOn (turnOff blinking_led) \<and> \<not> active (blinkTimer (turnOff blinking_led))
   \<and> blinkOn (turnOff blinking_led)
   \<and> offTimer (turnOff blinking_led) = offTimer blinking_led
   \<and> blinkTimer (setColor transparent blinking_led) = blinkTimer blinking_led"
proof -
  have h1: "isOn blinking_led"
    by (simp add: blinking_led_def led_defs white_def transparent_def)
  have h2: "state blinking_led = isOn blinking_led"
    by (simp add: blinking_led_def led_defs white_def transparent_def)
  show ?thesis using h1 h2 C1_turnOff [OF h1 h2] by simp
qed

text \<open>
  C1 as stated fails: after \<open>turnOff()\<close> of an LED that is on the auto-off timer is still
  running, and after \<open>setColor(transparent)\<close> the blink timer still runs, the phase is
  still dimmed and the auto-off timer still runs.
\<close>

theorem C1_counterexample:
  "isOn blinking_led \<and> state blinking_led
   \<and> active (offTimer (turnOff blinking_led))
   \<and> \<not> isOn (setColor transparent blinking_led)
   \<and> active (blinkTimer (setColor transparent blinking_led))
   \<and> \<not> blinkOn (setColor transparent blinking_led)
   \<and> active (offTimer (setColor transparent blinking_led))"
  by (simp add: blinking_led_def led_defs white_def transparent_def)

text \<open>
  C5, as the code has it. For an LED that is off, \<open>turnOn()\<close> leaves it on in white with
  the auto-off timer stopped; \<open>setColor(c)\<close> with \<open>c\<close> not transparent leaves it on in
  colour \<open>c\<close> and leaves the auto-off timer as it was.
\<close>

theorem C5_off_to_on:
  assumes "\<not> isOn led" and "state led = isOn led"
  shows "isOn (turnOn led) \<and> state (turnOn led) \<and> currentColor (turnOn led) = white
         \<and> \<not> active (offTimer (turnOn led))
         \<and> (c \<noteq> transparent \<longrightarrow>
              isOn (setColor c led) \<and> state (setColor c led)
              \<and> currentColor (setColor c led) = c
              \<and> offTimer (setColor c led) = offTimer led)"
  using assms
  by (simp add: turnOn_def setColor_def isOn_def timer_stop_def Let_def white_not_transparent)

theorem C5_witness:
  "\<not> isOn timed_off_led \<and> state timed_off_led = isOn timed_off_led \<and> red \<noteq> transparent
   \<and> isOn (turnOn timed_off_led) \<and> currentColor (turnOn timed_off_led) = white
   \<and> \<not> active (offTimer (turnOn timed_off_led))
   \<and> isOn (setColor red timed_off_led)
   \<and> offTimer (setColor red timed_off_led) = offTimer timed_off_led"
proof -
  have h1: "\<not> isOn timed_off_led"
    by (simp add: timed_off_led_def led_defs)
  have h2: "state timed_off_led = isOn timed_off_led"
    by (simp add: timed_off_led_def led_defs)
  have h3: "red \<noteq> transparent"
    by (simp add: red_def transparent_def)
  show ?thesis using h1 h2 h3 C5_off_to_on [OF h1 h2, of red] by simp
qed

text \<open>
  C5 as stated fails: an LED that was switched off while its auto-off timer was running
  is switched on by \<open>setColor(red)\<close> with that timer still running.
\<close>

theorem C5_counterexample:
  "\<not> isOn timed_off_led \<and> \<not> state timed_off_led
   \<and> red \<noteq> transparent
   \<and> isOn (setColor red timed_off_led)
   \<and> active (offTimer (setColor red timed_off_led))"
  by (simp add: timed_off_led_def red_def led_defs)

text \<open>
  C7. \<open>setBlinkSpeed\<close> with a positive speed stores the speed and starts the blink timer
  at that interval, so that every expiry flips the blink phase and the timer keeps
  running; \<open>setBlinkSpeed(0)\<close> stores 0, stops the blink timer, so that no expiry
  changes anything any more, and makes the phase visible, whatever the LED was before.
\<close>

theorem C7_setBlinkSpeed:
  "(0 < speed \<longrightarrow>
      getBlinkSpeed (setBlinkSpeed speed led) = speed
      \<and> blinkTimer (setBlinkSpeed speed led) = \<lparr>active = True, interval = speed\<rparr>
      \<and> (\<forall>n. active (blinkTimer ((blinkTimer_timeout ^^ n) (setBlinkSpeed speed led)))
             \<and> blinkOn ((blinkTimer_timeout ^^ n) (setBlinkSpeed speed led))
                 = (if even n then blinkOn led else \<not> blinkOn led)))
   \<and> getBlinkSpeed (setBlinkSpeed 0 led) = 0
   \<and> \<not> active (blinkTimer (setBlinkSpeed 0 led))
   \<and> blinkOn (setBlinkSpeed 0 led)
   \<and> (\<forall>n. (blinkTimer_timeout ^^ n) (setBlinkSpeed 0 led) = setBlinkSpeed 0 led)"
proof -
  have pos: "0 < speed \<Longrightarrow> active (blinkTimer (setBlinkSpeed speed led))
      \<and> blinkOn (setBlinkSpeed speed led) = blinkOn led"
    by (simp add: setBlinkSpeed_def timer_start_def timer_stop_def Let_def)
  have zero: "\<not> active (blinkTimer (setBlinkSpeed 0 led))"
    by (simp add: setBlinkSpeed_def timer_stop_def Let_def)
  have a: "0 < speed \<longrightarrow>
      getBlinkSpeed (setBlinkSpeed speed led) = speed
      \<and> blinkTimer (setBlinkSpeed speed led) = \<lparr>active = True, interval = speed\<rparr>"
    by (simp add: setBlinkSpeed_def getBlinkSpeed_def timer_start_def timer_stop_def Let_def)
  have b: "0 < speed \<longrightarrow> (\<forall>n. active (blinkTimer ((blinkTimer_timeout ^^ n) (setBlinkSpeed speed led)))
             \<and> blinkOn ((blinkTimer_timeout ^^ n) (setBlinkSpeed speed led))
                 = (if even n then blinkOn led else \<not> blinkOn led))"
    using pos blink_toggle [of "setBlinkSpeed speed led"] by simp
  have c: "getBlinkSpeed (setBlinkSpeed 0 led) = 0 \<and> blinkOn (setBlinkSpeed 0 led)"
    by (simp add: setBlinkSpeed_def getBlinkSpeed_def Let_def)
  have d: "\<forall>n. (blinkTimer_timeout ^^ n) (setBlinkSpeed 0 led) = setBlinkSpeed 0 led"
    using zero blink_idle by blast
  show ?thesis using a b c d zero by blast
qed

theorem C7_witness:
  "(0::int) < 500
   \<and> getBlinkSpeed (setBlinkSpeed 500 dimmed_led) = 500
   \<and> blinkTimer (setBlinkSpeed 500 dimmed_led) = \<lparr>active = True, interval = 500\<rparr>
   \<and> blinkOn ((blinkTimer_timeout ^^ 3) (setBlinkSpeed 500 dimmed_led))
   \<and> \<not> blinkOn dimmed_led
   \<and> \<not> active (blinkTimer (setBlinkSpeed 0 dimmed_led))
   \<and> blinkOn (setBlinkSpeed 0 dimmed_led)"
proof -
  have h: "\<not> blinkOn dimmed_led"
    by (simp add: dimmed_led_def led_defs)
  show ?thesis using h C7_setBlinkSpeed [of 500 dimmed_led] by simp
qed

text \<open>
  C8, as the code has it. \<open>setDuration\<close> with a number of seconds from 1 to 2147483,
  whose product with 1000 fits 32 bits, replaces the auto-off timer by a running one of
  that many thousand milliseconds and changes nothing else. The timer repeats: through
  any sequence of recolourings, renumberings, \<open>turnOff()\<close>, \<open>setBlinkSpeed\<close> and
  expiries of either timer it stays running with that interval, and every expiry of it
  runs \<open>turnOff()\<close>. \<open>stopOffTimer()\<close> stops it; \<open>turnOn()\<close> stops it when the LED
  is off and changes nothing when the LED is on. With 0 or a negative number
  \<open>setDuration\<close> changes nothing, so a running auto-off timer keeps running.
\<close>

theorem C8_setDuration:
  "(0 < seconds \<and> seconds \<le> 2147483 \<longrightarrow>
      setDuration seconds led = led\<lparr>offTimer := \<lparr>active = True, interval = seconds * 1000\<rparr>\<rparr>
      \<and> (list_all keeps_offTimer xs \<longrightarrow>
            offTimer (run_led_ops xs (setDuration seconds led))
              = \<lparr>active = True, interval = seconds * 1000\<rparr>
            \<and> offTimer_timeout (run_led_ops xs (setDuration seconds led))
                = turnOff (run_led_ops xs (setDuration seconds led))
            \<and> \<not> active (offTimer (stopOffTimer (run_led_ops xs (setDuration seconds led))))
            \<and> (\<not> state (run_led_ops xs (setDuration seconds led)) \<longrightarrow>
                  \<not> active (offTimer (turnOn (run_led_ops xs (setDuration seconds led)))))
            \<and> (state (run_led_ops xs (setDuration seconds led)) \<longrightarrow>
                  turnOn (run_led_ops xs (setDuration seconds led))
                    = run_led_ops xs (setDuration seconds led))))
   \<and> (seconds \<le> 0 \<longrightarrow> setDuration seconds led = led)"
proof -
  have start: "setDuration seconds led
                 = led\<lparr>offTimer := \<lparr>active = True, interval = seconds * 1000\<rparr>\<rparr>"
    if "0 < seconds" and "seconds \<le> 2147483"
  proof -
    from that have "int32 (seconds * 1000) = seconds * 1000"
      by (intro int32_in_range) simp_all
    with that show ?thesis
      by (simp add: setDuration_def timer_start_def)
  qed
  have later: "offTimer (run_led_ops xs (setDuration seconds led))
                 = \<lparr>active = True, interval = seconds * 1000\<rparr>"
    if "0 < seconds" and "seconds \<le> 2147483" and "list_all keeps_offTimer xs"
    using that by (simp add: keeps_offTimer_run start)
  have expiry: "offTimer_timeout r = turnOff r" if "active (offTimer r)" for r
    using that by (simp add: offTimer_timeout_def)
  have stop: "\<not> active (offTimer (stopOffTimer r))" for r
    by (simp add: stopOffTimer_def timer_stop_def)
  have on_off: "\<not> state r \<longrightarrow> \<not> active (offTimer (turnOn r))" for r
    by (simp add: turnOn_def setColor_def timer_stop_def Let_def)
  have on_on: "state r \<longrightarrow> turnOn r = r" for r
    by (simp add: turnOn_def)
  have noop: "seconds \<le> 0 \<longrightarrow> setDuration seconds led = led"
    by (simp add: setDuration_def)
  let ?r = "run_led_ops xs (setDuration seconds led)"
  have positive: "0 < seconds \<and> seconds \<le> 2147483 \<longrightarrow>
      setDuration seconds led = led\<lparr>offTimer := \<lparr>active = True, interval = seconds * 1000\<rparr>\<rparr>
      \<and> (list_all keeps_offTimer xs \<longrightarrow>
            offTimer ?r = \<lparr>active = True, interval = seconds * 1000\<rparr>
            \<and> offTimer_timeout ?r = turnOff ?r
            \<and> \<not> active (offTimer (stopOffTimer ?r))
            \<and> (\<not> state ?r \<longrightarrow> \<not> active (offTimer (turnOn ?r)))
            \<and> (state ?r \<longrightarrow> turnOn ?r = ?r))"
  proof
    assume b: "0 < seconds \<and> seconds \<le> 2147483"
    have run: "list_all keeps_offTimer xs \<longrightarrow>
            offTimer ?r = \<lparr>active = True, interval = seconds * 1000\<rparr>
            \<and> offTimer_timeout ?r = turnOff ?r
            \<and> \<not> active (offTimer (stopOffTimer ?r))
            \<and> (\<not> state ?r \<longrightarrow> \<not> active (offTimer (turnOn ?r)))
            \<and> (state ?r \<longrightarrow> turnOn ?r = ?r)"
    proof
      assume k: "list_all keeps_offTimer xs"
      from b k have t: "offTimer ?r = \<lparr>active = True, interval = seconds * 1000\<rparr>"
        by (simp only: later)
      then have "active (offTimer ?r)" by simp
      then have x: "offTimer_timeout ?r = turnOff ?r" by (rule expiry)
      from t x stop [of ?r] on_off [of ?r] on_on [of ?r]
      show "offTimer ?r = \<lparr>active = True, interval = seconds * 1000\<rparr>
            \<and> offTimer_timeout ?r = turnOff ?r
            \<and> \<not> active (offTimer (stopOffTimer ?r))
            \<and> (\<not> state ?r \<longrightarrow> \<not> active (offTimer (turnOn ?r)))
            \<and> (state ?r \<longrightarrow> turnOn ?r = ?r)"
        by blast
    qed
    from b have "setDuration seconds led
                   = led\<lparr>offTimer := \<lparr>active = True, interval = seconds * 1000\<rparr>\<rparr>"
      by (simp only: start)
    with run show "setDuration seconds led
                     = led\<lparr>offTimer := \<lparr>active = True, interval = seconds * 1000\<rparr>\<rparr>
      \<and> (list_all keeps_offTimer xs \<longrightarrow>
            offTimer ?r = \<lparr>active = True, interval = seconds * 1000\<rparr>
            \<and> offTimer_timeout ?r = turnOff ?r
            \<and> \<not> active (offTimer (stopOffTimer ?r))
            \<and> (\<not> state ?r \<longrightarrow> \<not> active (offTimer (turnOn ?r)))
            \<and> (state ?r \<longrightarrow> turnOn ?r = ?r))"
      by blast
  qed
  from positive noop show ?thesis by blast
qed

theorem C8_witness:
  "(0::int) < 2 \<and> (2::int) \<le> 2147483
   \<and> offTimer blinking_led = \<lparr>active = True, interval = 5000\<rparr>
   \<and> offTimer (setDuration 2 blinking_led) = \<lparr>active = True, interval = 2000\<rparr>
   \<and> state (setDuration 2 blinking_led)
   \<and> turnOn (setDuration 2 blinking_led) = setDuration 2 blinking_led
   \<and> list_all keeps_offTimer [OffTimeout, SetColor red, OffTimeout]
   \<and> offTimer (run_led_ops [OffTimeout, SetColor red, OffTimeout] (setDuration 2 blinking_led))
       = \<lparr>active = True, interval = 2000\<rparr>
   \<and> \<not> state (run_led_ops [OffTimeout, SetColor red, OffTimeout] (setDuration 2 blinking_led))
   \<and> \<not> active (offTimer (stopOffTimer
          (run_led_ops [OffTimeout, SetColor red, OffTimeout] (setDuration 2 blinking_led))))
   \<and> \<not> active (offTimer (turnOn
          (run_led_ops [OffTimeout, SetColor red, OffTimeout] (setDuration 2 blinking_led))))
   \<and> (0::int) \<le> 0 \<and> setDuration 0 blinking_led = blinking_led
   \<and> active (offTimer (setDuration 0 blinking_led))
   \<and> (-3::int) \<le> 0 \<and> setDuration (-3) blinking_led = blinking_led"
proof -
  let ?xs = "[OffTimeout, SetColor red, OffTimeout]"
  let ?r = "run_led_ops ?xs (setDuration 2 blinking_led)"
  have before: "offTimer blinking_led = \<lparr>active = True, interval = 5000\<rparr>"
    by (simp add: blinking_led_def led_defs)
  have on: "state blinking_led"
    by (simp add: blinking_led_def led_defs)
  have pos: "(0::int) < 2 \<and> (2::int) \<le> 2147483"
    and le0: "(0::int) \<le> 0" and le3: "(-3::int) \<le> 0"
    by simp_all
  have k0: "list_all keeps_offTimer []" and k: "list_all keeps_offTimer ?xs"
    by simp_all
  from pos k0 C8_setDuration [of 2 blinking_led "[]"]
  have s2: "setDuration 2 blinking_led
              = blinking_led\<lparr>offTimer := \<lparr>active = True, interval = 2 * 1000\<rparr>\<rparr>"
    and t0: "state (run_led_ops [] (setDuration 2 blinking_led)) \<longrightarrow>
               turnOn (run_led_ops [] (setDuration 2 blinking_led))
                 = run_led_ops [] (setDuration 2 blinking_led)"
    by blast+
  have w1: "offTimer (setDuration 2 blinking_led) = \<lparr>active = True, interval = 2000\<rparr>"
    by (simp add: s2)
  have w2: "state (setDuration 2 blinking_led)"
    by (simp add: s2 on)
  from t0 w2 have w3: "turnOn (setDuration 2 blinking_led) = setDuration 2 blinking_led"
    by simp
  have off: "\<not> state ?r"
    by (simp add: s2 blinking_led_def led_defs red_def)
  from pos k C8_setDuration [of 2 blinking_led ?xs]
  have r1: "offTimer ?r = \<lparr>active = True, interval = 2 * 1000\<rparr>"
    and r2: "\<not> active (offTimer (stopOffTimer ?r))"
    and r3: "\<not> state ?r \<longrightarrow> \<not> active (offTimer (turnOn ?r))"
    by blast+
  from r1 have w4: "offTimer ?r = \<lparr>active = True, interval = 2000\<rparr>"
    by simp
  from r3 off have w5: "\<not> active (offTimer (turnOn ?r))"
    by blast
  from le0 C8_setDuration [of 0 blinking_led "[]"]
  have s0: "setDuration 0 blinking_led = blinking_led" by blast
  from le3 C8_setDuration [of "-3" blinking_led "[]"]
  have s3: "setDuration (-3) blinking_led = blinking_led" by blast
  have w6: "active (offTimer (setDuration 0 blinking_led))"
    by (simp add: s0 before)
  show ?thesis
    using pos le0 le3 before w1 w2 w3 k w4 off r2 w5 s0 w6 s3 by blast
qed

text \<open>
  C8 as stated fails. The timer is not one-shot: after it has expired and switched the
  LED off it is still running, and when the LED is lit again by \<open>setColor\<close> the next
  expiry switches it off a second time. And not every positive number of seconds gives
  a timer of that duration: for 2147484 seconds the 32-bit product is negative.
\<close>

theorem C8_counterexample:
  "isOn timed_on_led
   \<and> \<not> isOn (offTimer_timeout timed_on_led)
   \<and> active (offTimer (offTimer_timeout timed_on_led))
   \<and> isOn (setColor red (offTimer_timeout timed_on_led))
   \<and> \<not> isOn (offTimer_timeout (setColor red (offTimer_timeout timed_on_led)))
   \<and> interval (offTimer (setDuration 2147484 timed_on_led)) = - 2147483296"
  by (simp add: timed_on_led_def red_def led_defs)

text \<open>
  C9, as the code has it. For an LED with a positive blink speed, \<open>turnOff()\<close> leaves the
  speed unchanged, and so does a following \<open>turnOn()\<close>, after which the LED is on with
  the phase visible. The blink timer is then not running provided the LED was on (flag
  set) before \<open>turnOff()\<close>, or its blink timer was not running.
\<close>

theorem C9_blinkSpeed_kept:
  assumes "0 < blinkSpeed led"
  shows "getBlinkSpeed (turnOff led) = blinkSpeed led
         \<and> getBlinkSpeed (turnOn (turnOff led)) = blinkSpeed led
         \<and> isOn (turnOn (turnOff led))
         \<and> blinkOn (turnOn (turnOff led))
         \<and> (state led \<or> \<not> active (blinkTimer led)
              \<longrightarrow> \<not> active (blinkTimer (turnOn (turnOff led))))"
  by (simp add: turnOff_def turnOn_def setColor_def isOn_def getBlinkSpeed_def
        timer_stop_def Let_def white_not_transparent)

theorem C9_witness:
  "0 < blinkSpeed on_blinking_led \<and> state on_blinking_led
   \<and> active (blinkTimer on_blinking_led)
   \<and> getBlinkSpeed (turnOff on_blinking_led) = 500
   \<and> getBlinkSpeed (turnOn (turnOff on_blinking_led)) = 500
   \<and> isOn (turnOn (turnOff on_blinking_led))
   \<and> blinkOn (turnOn (turnOff on_blinking_led))
   \<and> \<not> active (blinkTimer (turnOn (turnOff on_blinking_led)))"
proof -
  have h: "0 < blinkSpeed on_blinking_led \<and> state on_blinking_led
      \<and> active (blinkTimer on_blinking_led) \<and> blinkSpeed on_blinking_led = 500"
    by (simp add: on_blinking_led_def led_defs)
  then have h1: "0 < blinkSpeed on_blinking_led" by simp
  show ?thesis using h C9_blinkSpeed_kept [OF h1] by simp
qed

text \<open>
  C9 as stated fails: for an LED that is off and whose blink speed was set to 500,
  \<open>turnOff()\<close> does nothing and \<open>turnOn()\<close> lights the LED with the blink timer
  running.
\<close>

theorem C9_counterexample:
  "0 < blinkSpeed off_blinking_led
   \<and> getBlinkSpeed (turnOff off_blinking_led) = 500
   \<and> isOn (turnOn (turnOff off_blinking_led))
   \<and> active (blinkTimer (turnOn (turnOff off_blinking_led)))"
  by (simp add: off_blinking_led_def led_defs)

text \<open>
  C10. After construction and after any sequence of operations on the LED (the public
  ones, mouse presses and timer expiries), the private flag \<open>state\<close> equals
  \<open>currentColor != transparent\<close>, which is what \<open>isOn\<close> returns.
\<close>

theorem C10_flag_agrees_with_color:
  "state (run_led_ops xs (new_VirtualLED i)) = isOn (run_led_ops xs (new_VirtualLED i))
   \<and> isOn (run_led_ops xs (new_VirtualLED i))
       = (currentColor (run_led_ops xs (new_VirtualLED i)) \<noteq> transparent)"
proof -
  have "state (new_VirtualLED i) = isOn (new_VirtualLED i)"
    by (simp add: new_VirtualLED_def isOn_def)
  then have "state (run_led_ops xs (new_VirtualLED i)) = isOn (run_led_ops xs (new_VirtualLED i))"
    by (rule run_led_ops_flag)
  then show ?thesis by (simp add: isOn_def)
qed

theorem C10_witness:
  "state (run_led_ops [TurnOn, SetDuration 2, SetColor transparent, MousePress LeftButton,
                       SetBlinkSpeed 500, BlinkTimeout, OffTimeout] (new_VirtualLED 1))
     = isOn (run_led_ops [TurnOn, SetDuration 2, SetColor transparent, MousePress LeftButton,
                          SetBlinkSpeed 500, BlinkTimeout, OffTimeout] (new_VirtualLED 1))
   \<and> isOn (run_led_ops [TurnOn, SetDuration 2, SetColor transparent, MousePress LeftButton,
                          SetBlinkSpeed 500, BlinkTimeout, OffTimeout] (new_VirtualLED 1))"
proof -
  have "isOn (run_led_ops [TurnOn, SetDuration 2, SetColor transparent, MousePress LeftButton,
                          SetBlinkSpeed 500, BlinkTimeout, OffTimeout] (new_VirtualLED 1))"
    by (simp add: led_defs)
  then show ?thesis
    using C10_flag_agrees_with_color
      [of "[TurnOn, SetDuration 2, SetColor transparent, MousePress LeftButton,
            SetBlinkSpeed 500, BlinkTimeout, OffTimeout]" 1]
    by blast
qed

section \<open>Facts about the collection\<close>

subsection \<open>Identifiers are untouched by LED operations\<close>

lemma getId_setColor [simp]: "getId (setColor c led) = getId led"
  by (simp add: getId_def setColor_def)

lemma getId_stopOffTimer [simp]: "getId (stopOffTimer led) = getId led"
  by (simp add: getId_def stopOffTimer_def)

lemma getId_turnOn [simp]: "getId (turnOn led) = getId led"
  by (simp add: getId_def turnOn_def setColor_def Let_def)

lemma getId_turnOff [simp]: "getId (turnOff led) = getId led"
  by (simp add: getId_def turnOff_def setColor_def Let_def)

lemma getId_setBlinkSpeed [simp]: "getId (setBlinkSpeed s led) = getId led"
  by (simp add: getId_def setBlinkSpeed_def Let_def)

lemma getId_setDuration [simp]: "getId (setDuration s led) = getId led"
  by (simp add: getId_def setDuration_def)

lemma getId_mousePressEvent [simp]: "getId (mousePressEvent b led) = getId led"
  by (simp add: mousePressEvent_def)

lemma getId_blinkTimer_timeout [simp]: "getId (blinkTimer_timeout led) = getId led"
  by (simp add: getId_def blinkTimer_timeout_def)

lemma getId_offTimer_timeout [simp]: "getId (offTimer_timeout led) = getId led"
  by (simp add: offTimer_timeout_def)

lemma getId_setId [simp]: "getId (setId i led) = i"
  by (simp add: getId_def setId_def)

lemma getId_new [simp]: "getId (new_VirtualLED i) = i"
  by (simp add: getId_def new_VirtualLED_def)

lemma map_getId_update:
  assumes "getId v = getId (ls ! k)"
  shows "map getId (ls[k := v]) = map getId ls"
proof (cases "k < length ls")
  case True
  with assms have "getId v = map getId ls ! k" by simp
  then show ?thesis by (simp only: map_update list_update_id)
next
  case False
  then have "ls[k := v] = ls" by (simp add: list_update_beyond)
  then show ?thesis by simp
qed

lemma map_getId_on_led:
  "(\<And>led. getId (f led) = getId led) \<Longrightarrow> map getId (leds (on_led k f ui)) = map getId (leds ui)"
  by (simp add: on_led_def map_getId_update)

lemma nextLedId_on_led [simp]: "nextLedId (on_led k f ui) = nextLedId ui"
  by (simp add: on_led_def)

lemma length_on_led [simp]: "length (leds (on_led k f ui)) = length (leds ui)"
  by (simp add: on_led_def)

lemma while_dialog_open_frame:
  "length (leds (while_dialog_open es ui)) = length (leds ui)
   \<and> nextLedId (while_dialog_open es ui) = nextLedId ui"
proof (induction es arbitrary: ui)
  case Nil
  show ?case by simp
next
  case (Cons e es)
  have "length (leds (deliver e ui)) = length (leds ui)
        \<and> nextLedId (deliver e ui) = nextLedId ui"
    by (cases e) simp_all
  with Cons.IH [of "deliver e ui"] show ?case by simp
qed

subsection \<open>Lookup\<close>

lemma findLEDById_Some:
  "findLEDById i ls = Some k \<Longrightarrow>
     k < length ls \<and> getId (ls ! k) = i \<and> (\<forall>j<k. getId (ls ! j) \<noteq> i)"
proof (induction ls arbitrary: k)
  case Nil
  then show ?case by simp
next
  case (Cons led rest)
  show ?case
  proof (cases "getId led = i")
    case True
    with Cons.prems show ?thesis by simp
  next
    case False
    with Cons.prems obtain k' where k': "findLEDById i rest = Some k'" and k: "k = Suc k'"
      by auto
    from Cons.IH [OF k'] False k show ?thesis
      by (auto simp: nth_Cons split: nat.splits)
  qed
qed

lemma findLEDById_None: "(findLEDById i ls = None) = (i \<notin> getId ` set ls)"
  by (induction ls) auto

subsection \<open>Renumbering\<close>

lemma reassign_from_eq:
  "reassign_from i ls =
     (map (\<lambda>(j, led). setId j led) (zip [i..i + int (length ls) - 1] ls), i + int (length ls))"
proof (induction ls arbitrary: i)
  case Nil
  then show ?case by simp
next
  case (Cons led rest)
  have "[i..i + int (length (led # rest)) - 1] = i # [i + 1..i + 1 + int (length rest) - 1]"
    by (subst upto_rec1) simp_all
  then show ?case by (simp add: Cons.IH)
qed

lemma leds_reassignLEDIds:
  "leds (reassignLEDIds ui) =
     map (\<lambda>(j, led). setId j led) (zip [1..int (length (leds ui))] (leds ui))"
  by (simp add: reassignLEDIds_def reassign_from_eq)

lemma nextLedId_reassignLEDIds:
  "nextLedId (reassignLEDIds ui) = int (length (leds ui)) + 1"
  by (simp add: reassignLEDIds_def reassign_from_eq)

lemma map_getId_renumbered:
  "length js = length ls \<Longrightarrow> map getId (map (\<lambda>(j, led). setId j led) (zip js ls)) = js"
  by (induction js ls rule: list_induct2) simp_all

lemma map_getId_reassignLEDIds:
  "map getId (leds (reassignLEDIds ui)) = [1..int (length (leds ui))]"
  by (simp only: leds_reassignLEDIds) (rule map_getId_renumbered, simp)

lemma length_reassignLEDIds [simp]: "length (leds (reassignLEDIds ui)) = length (leds ui)"
  by (simp add: leds_reassignLEDIds)

subsection \<open>The invariant of the collection\<close>

lemma ids_sequential_reassign: "ids_sequential (reassignLEDIds ui)"
  by (simp add: ids_sequential_def map_getId_reassignLEDIds nextLedId_reassignLEDIds)

lemma ids_sequential_same:
  "ids_sequential ui \<Longrightarrow> map getId (leds ui') = map getId (leds ui) \<Longrightarrow>
     nextLedId ui' = nextLedId ui \<Longrightarrow> ids_sequential ui'"
proof -
  assume a: "ids_sequential ui" and m: "map getId (leds ui') = map getId (leds ui)"
    and n: "nextLedId ui' = nextLedId ui"
  from m have "length (leds ui') = length (leds ui)" by (rule map_eq_imp_length_eq)
  with a m n show ?thesis by (simp add: ids_sequential_def)
qed

lemma ids_sequential_new: "ids_sequential new_UserInterface"
  by (simp add: ids_sequential_def new_UserInterface_def)

lemma ids_sequential_addNewLED: "ids_sequential ui \<Longrightarrow> ids_sequential (addNewLED ui)"
proof -
  assume a: "ids_sequential ui"
  have "[1..int (length (leds ui)) + 1] = [1..int (length (leds ui))] @ [int (length (leds ui)) + 1]"
    using upto_rec2 [of 1 "int (length (leds ui)) + 1"] by simp
  with a show ?thesis
    by (simp add: ids_sequential_def addNewLED_def Let_def add.commute)
qed

lemma ids_sequential_removeLED: "ids_sequential ui \<Longrightarrow> ids_sequential (removeLED i ui)"
  by (simp add: removeLED_def ids_sequential_reassign split: option.splits)

lemma ids_sequential_changeLEDColor:
  "ids_sequential ui \<Longrightarrow> ids_sequential (changeLEDColor i c ui)"
  by (erule ids_sequential_same)
     (simp_all add: changeLEDColor_def map_getId_update split: option.splits)

lemma ids_sequential_on_led:
  "(\<And>led. getId (f led) = getId led) \<Longrightarrow> ids_sequential ui \<Longrightarrow> ids_sequential (on_led k f ui)"
  by (erule ids_sequential_same) (simp_all add: map_getId_on_led)

lemma ids_sequential_turnAllLEDsOn: "ids_sequential ui \<Longrightarrow> ids_sequential (snd (turnAllLEDsOn ui))"
  by (erule ids_sequential_same) (simp_all add: turnAllLEDsOn_def comp_def)

lemma ids_sequential_turnAllLEDsOff: "ids_sequential ui \<Longrightarrow> ids_sequential (snd (turnAllLEDsOff ui))"
  by (erule ids_sequential_same) (simp_all add: turnAllLEDsOff_def comp_def Let_def if_distrib)

lemma ids_sequential_removeAllLEDs: "ids_sequential ui \<Longrightarrow> ids_sequential (snd (removeAllLEDs ui))"
  by (simp add: removeAllLEDs_def ids_sequential_def)

lemma ids_sequential_deliver: "ids_sequential ui \<Longrightarrow> ids_sequential (deliver e ui)"
  by (cases e) (simp_all add: ids_sequential_on_led)

lemma ids_sequential_while_dialog_open:
  "ids_sequential ui \<Longrightarrow> ids_sequential (while_dialog_open es ui)"
  by (induction es arbitrary: ui) (simp_all add: ids_sequential_deliver)

lemma ids_sequential_changeAllLEDsColor:
  "ids_sequential ui \<Longrightarrow> ids_sequential (snd (changeAllLEDsColor d c ui))"
proof -
  assume a: "ids_sequential ui"
  then have b: "ids_sequential (while_dialog_open d ui)"
    by (rule ids_sequential_while_dialog_open)
  have "ids_sequential
          ((while_dialog_open d ui)
             \<lparr>leds := map (\<lambda>led. if isOn led then setColor c led else led)
                        (leds (while_dialog_open d ui))\<rparr>)"
    using b by (rule ids_sequential_same) (simp_all add: comp_def if_distrib)
  with a b show ?thesis
    by (simp add: changeAllLEDsColor_def Let_def)
qed

lemma ids_sequential_setAllLEDsBlinkSpeed:
  "ids_sequential ui \<Longrightarrow> ids_sequential (snd (setAllLEDsBlinkSpeed d e ui))"
proof -
  assume a: "ids_sequential ui"
  then have b: "ids_sequential (while_dialog_open d ui)"
    by (rule ids_sequential_while_dialog_open)
  have "ids_sequential
          ((while_dialog_open d ui)
             \<lparr>leds := map (\<lambda>led. if isOn led then setBlinkSpeed speed led else led)
                        (leds (while_dialog_open d ui))\<rparr>)" for speed
    using b by (rule ids_sequential_same) (simp_all add: comp_def if_distrib)
  with a b show ?thesis
    by (simp add: setAllLEDsBlinkSpeed_def Let_def split: option.splits)
qed

lemma ids_sequential_setDurationForOnLEDs:
  "ids_sequential ui \<Longrightarrow> ids_sequential (snd (setDurationForOnLEDs d e ui))"
proof -
  assume a: "ids_sequential ui"
  then have b: "ids_sequential (while_dialog_open d ui)"
    by (rule ids_sequential_while_dialog_open)
  have "ids_sequential
          ((while_dialog_open d ui)
             \<lparr>leds := map (\<lambda>led. if isOn led then setDuration duration led else led)
                        (leds (while_dialog_open d ui))\<rparr>)" for duration
    using b by (rule ids_sequential_same) (simp_all add: comp_def if_distrib)
  with a b show ?thesis
    by (simp add: setDurationForOnLEDs_def Let_def split: option.splits)
qed

lemma ids_sequential_contextMenuEvent:
  "ids_sequential ui \<Longrightarrow> ids_sequential (contextMenuEvent k d a ui)"
proof -
  assume a: "ids_sequential ui"
  then have b: "ids_sequential (while_dialog_open d ui)"
    by (rule ids_sequential_while_dialog_open)
  with a show ?thesis
    by (simp add: contextMenuEvent_def Let_def ids_sequential_removeLED
          ids_sequential_changeLEDColor ids_sequential_on_led
          split: menu_action.splits option.splits)
qed

lemma ids_sequential_apply: "ids_sequential ui \<Longrightarrow> ids_sequential (apply_ui_op x ui)"
  by (cases x)
     (simp_all add: ids_sequential_addNewLED ids_sequential_turnAllLEDsOn
        ids_sequential_turnAllLEDsOff ids_sequential_removeAllLEDs ids_sequential_removeLED
        ids_sequential_changeLEDColor ids_sequential_changeAllLEDsColor
        ids_sequential_setAllLEDsBlinkSpeed ids_sequential_setDurationForOnLEDs
        ids_sequential_on_led ids_sequential_contextMenuEvent)

lemma ids_sequential_run: "ids_sequential ui \<Longrightarrow> ids_sequential (run_ui_ops xs ui)"
  by (induction xs arbitrary: ui) (simp_all add: ids_sequential_apply)

subsection \<open>Removal\<close>

lemma findLEDById_first:
  "k < length ls \<Longrightarrow> getId (ls ! k) = i \<Longrightarrow> (\<forall>j<k. getId (ls ! j) \<noteq> i) \<Longrightarrow>
     findLEDById i ls = Some k"
proof (induction ls arbitrary: k)
  case Nil
  then show ?case by simp
next
  case (Cons led rest)
  show ?case
  proof (cases k)
    case 0
    with Cons.prems show ?thesis by simp
  next
    case (Suc k')
    with Cons.prems have "getId led \<noteq> i" by auto
    moreover from Suc Cons.prems have "findLEDById i rest = Some k'"
      by (intro Cons.IH) auto
    ultimately show ?thesis using Suc by simp
  qed
qed

lemma leds_removeLED:
  "findLEDById i (leds ui) = Some k \<Longrightarrow>
     leds (removeLED i ui)
       = map (\<lambda>(j, led). setId j led)
           (zip [1..int (length (leds ui)) - 1] (take k (leds ui) @ drop (Suc k) (leds ui)))
     \<and> nextLedId (removeLED i ui) = int (length (leds ui))"
proof -
  assume f: "findLEDById i (leds ui) = Some k"
  then have k: "k < length (leds ui)" by (simp add: findLEDById_Some)
  then have "int (length (take k (leds ui) @ drop (Suc k) (leds ui))) = int (length (leds ui)) - 1"
    by (simp add: min_def)
  with f show ?thesis
    by (simp add: removeLED_def leds_reassignLEDIds nextLedId_reassignLEDIds)
qed

subsection \<open>Turning all LEDs on\<close>

lemma turnAllLEDsOn_led:
  "isOn (stopOffTimer (if \<not> isOn led then setColor white led else led))
   \<and> \<not> active (offTimer (stopOffTimer (if \<not> isOn led then setColor white led else led)))
   \<and> currentColor (stopOffTimer (if \<not> isOn led then setColor white led else led))
       = (if isOn led then currentColor led else white)"
  by (simp add: stopOffTimer_def setColor_def isOn_def timer_stop_def white_not_transparent)

subsection \<open>The example collections\<close>

lemmas ui_defs = new_UserInterface_def addNewLED_def turnAllLEDsOn_def removeLED_def
  reassignLEDIds_def changeLEDColor_def changeAllLEDsColor_def contextMenuEvent_def on_led_def
  isValid_def getId_def setId_def

lemma three_leds_eq:
  "three_leds =
     \<lparr>leds = [\<lparr>currentColor = red, ledId = 1, state = True, blinkOn = True,
                blinkTimer = \<lparr>active = False, interval = 0\<rparr>, blinkSpeed = 0,
                offTimer = \<lparr>active = False, interval = 0\<rparr>\<rparr>,
              \<lparr>currentColor = white, ledId = 2, state = True, blinkOn = True,
                blinkTimer = \<lparr>active = False, interval = 0\<rparr>, blinkSpeed = 0,
                offTimer = \<lparr>active = True, interval = 1000\<rparr>\<rparr>,
              \<lparr>currentColor = transparent, ledId = 3, state = False, blinkOn = True,
                blinkTimer = \<lparr>active = False, interval = 0\<rparr>, blinkSpeed = 0,
                offTimer = \<lparr>active = False, interval = 0\<rparr>\<rparr>],
      nextLedId = 4\<rparr>"
  by (simp add: three_leds_def ui_defs led_defs red_def)

lemma all_on_leds_eq:
  "all_on_leds =
     \<lparr>leds = [\<lparr>currentColor = red, ledId = 1, state = True, blinkOn = True,
                blinkTimer = \<lparr>active = False, interval = 0\<rparr>, blinkSpeed = 0,
                offTimer = \<lparr>active = False, interval = 0\<rparr>\<rparr>,
              \<lparr>currentColor = white, ledId = 2, state = True, blinkOn = True,
                blinkTimer = \<lparr>active = False, interval = 0\<rparr>, blinkSpeed = 0,
                offTimer = \<lparr>active = False, interval = 1000\<rparr>\<rparr>,
              \<lparr>currentColor = white, ledId = 3, state = True, blinkOn = True,
                blinkTimer = \<lparr>active = False, interval = 0\<rparr>, blinkSpeed = 0,
                offTimer = \<lparr>active = False, interval = 0\<rparr>\<rparr>],
      nextLedId = 4\<rparr>"
  by (simp add: all_on_leds_def three_leds_eq turnAllLEDsOn_def isOn_def stopOffTimer_def
        setColor_def timer_stop_def red_def white_def transparent_def)

section \<open>The collection manager's operations\<close>

text \<open>
  C2. In every state the manager reaches from the empty collection, by any finite
  sequence of its operations and of the events of its LEDs, the identifiers of the LEDs
  are 1, 2, ..., n in list order, where n is the size of the collection: as a set they
  are exactly {1..n}, without duplicates, and \<open>nextLedId\<close> is n + 1.
\<close>

theorem C2_ids_sequential:
  "map getId (leds (run_ui_ops xs new_UserInterface))
     = [1..int (length (leds (run_ui_ops xs new_UserInterface)))]
   \<and> getId ` set (leds (run_ui_ops xs new_UserInterface))
       = {1..int (length (leds (run_ui_ops xs new_UserInterface)))}
   \<and> distinct (map getId (leds (run_ui_ops xs new_UserInterface)))
   \<and> nextLedId (run_ui_ops xs new_UserInterface)
       = int (length (leds (run_ui_ops xs new_UserInterface))) + 1"
proof -
  let ?ui = "run_ui_ops xs new_UserInterface"
  have inv: "ids_sequential ?ui"
    using ids_sequential_new by (rule ids_sequential_run)
  then have m: "map getId (leds ?ui) = [1..int (length (leds ?ui))]"
    and n: "nextLedId ?ui = int (length (leds ?ui)) + 1"
    by (simp_all add: ids_sequential_def)
  have "set (map getId (leds ?ui)) = {1..int (length (leds ?ui))}"
    by (simp only: m set_upto)
  then have s: "getId ` set (leds ?ui) = {1..int (length (leds ?ui))}" by simp
  have d: "distinct (map getId (leds ?ui))"
    by (simp only: m distinct_upto)
  from m s d n show ?thesis by blast
qed

text \<open>
  C3. \<open>turnAllLEDsOn\<close> on an empty collection reports that there are no LEDs and
  changes nothing; on a non-empty collection whose LEDs are all on it reports that all
  are already on (and changes nothing); otherwise, with at least one LED off, it reports
  nothing and ends with every LED on, the ones that were off in white and the others in
  the colour they had, and with the auto-off timer of every LED stopped, so that an
  expiry of that timer no longer does anything.
\<close>

theorem C3_turnAllLEDsOn:
  "(leds ui = [] \<longrightarrow> turnAllLEDsOn ui = (Some NoLEDsAvailable, ui))
   \<and> (leds ui \<noteq> [] \<and> list_all isOn (leds ui) \<longrightarrow> turnAllLEDsOn ui = (Some AllAlreadyOn, ui))
   \<and> (leds ui \<noteq> [] \<and> \<not> list_all isOn (leds ui) \<longrightarrow>
        fst (turnAllLEDsOn ui) = None
        \<and> length (leds (snd (turnAllLEDsOn ui))) = length (leds ui)
        \<and> nextLedId (snd (turnAllLEDsOn ui)) = nextLedId ui
        \<and> list_all isOn (leds (snd (turnAllLEDsOn ui)))
        \<and> list_all (\<lambda>led. \<not> active (offTimer led) \<and> offTimer_timeout led = led)
             (leds (snd (turnAllLEDsOn ui)))
        \<and> (\<forall>k < length (leds ui).
              currentColor (leds (snd (turnAllLEDsOn ui)) ! k)
                = (if isOn (leds ui ! k) then currentColor (leds ui ! k) else white)))"
proof -
  let ?f = "\<lambda>led. stopOffTimer (if \<not> isOn led then setColor white led else led)"
  have a: "list_all isOn (map ?f ls)" for ls
    by (induction ls) (simp_all add: turnAllLEDsOn_led del: if_split)
  have b: "list_all (\<lambda>led. \<not> active (offTimer led) \<and> offTimer_timeout led = led) (map ?f ls)" for ls
    by (induction ls) (simp_all add: turnAllLEDsOn_led offTimer_timeout_def del: if_split)
  have c: "k < length ls \<Longrightarrow>
      currentColor (map ?f ls ! k) = (if isOn (ls ! k) then currentColor (ls ! k) else white)"
    for k ls
    by (simp add: turnAllLEDsOn_led del: if_split)
  show ?thesis
    using a [of "leds ui"] b [of "leds ui"] c [of _ "leds ui"]
    by (simp add: turnAllLEDsOn_def del: if_split)
qed

theorem C3_witness:
  "leds new_UserInterface = []
   \<and> turnAllLEDsOn new_UserInterface = (Some NoLEDsAvailable, new_UserInterface)
   \<and> leds all_on_leds \<noteq> [] \<and> list_all isOn (leds all_on_leds)
   \<and> turnAllLEDsOn all_on_leds = (Some AllAlreadyOn, all_on_leds)
   \<and> leds three_leds \<noteq> [] \<and> \<not> list_all isOn (leds three_leds)
   \<and> active (offTimer (leds three_leds ! 1))
   \<and> fst (turnAllLEDsOn three_leds) = None
   \<and> list_all isOn (leds (snd (turnAllLEDsOn three_leds)))
   \<and> list_all (\<lambda>led. \<not> active (offTimer led) \<and> offTimer_timeout led = led)
        (leds (snd (turnAllLEDsOn three_leds)))
   \<and> currentColor (leds (snd (turnAllLEDsOn three_leds)) ! 0) = red
   \<and> currentColor (leds (snd (turnAllLEDsOn three_leds)) ! 2) = white"
proof -
  have e: "leds new_UserInterface = []"
    by (simp add: new_UserInterface_def)
  have o: "leds all_on_leds \<noteq> [] \<and> list_all isOn (leds all_on_leds)"
    by (simp add: all_on_leds_eq isOn_def red_def white_def transparent_def)
  have t: "leds three_leds \<noteq> [] \<and> \<not> list_all isOn (leds three_leds)
           \<and> active (offTimer (leds three_leds ! 1)) \<and> length (leds three_leds) = 3
           \<and> isOn (leds three_leds ! 0) \<and> currentColor (leds three_leds ! 0) = red
           \<and> \<not> isOn (leds three_leds ! 2)"
    by (simp add: three_leds_eq isOn_def red_def white_def transparent_def)
  from e C3_turnAllLEDsOn [of new_UserInterface]
  have w1: "turnAllLEDsOn new_UserInterface = (Some NoLEDsAvailable, new_UserInterface)"
    by blast
  from o C3_turnAllLEDsOn [of all_on_leds]
  have w2: "turnAllLEDsOn all_on_leds = (Some AllAlreadyOn, all_on_leds)"
    by blast
  from t C3_turnAllLEDsOn [of three_leds]
  have w3: "fst (turnAllLEDsOn three_leds) = None
      \<and> list_all isOn (leds (snd (turnAllLEDsOn three_leds)))
      \<and> list_all (\<lambda>led. \<not> active (offTimer led) \<and> offTimer_timeout led = led)
           (leds (snd (turnAllLEDsOn three_leds)))
      \<and> (\<forall>k < length (leds three_leds).
              currentColor (leds (snd (turnAllLEDsOn three_leds)) ! k)
                = (if isOn (leds three_leds ! k) then currentColor (leds three_leds ! k) else white))"
    by blast
  from w3 t have w4: "currentColor (leds (snd (turnAllLEDsOn three_leds)) ! 0) = red"
    by simp
  from w3 t have w5: "currentColor (leds (snd (turnAllLEDsOn three_leds)) ! 2) = white"
    by simp
  from e o t w1 w2 w3 w4 w5 show ?thesis by blast
qed

text \<open>
  C4. \<open>removeLED\<close> with an identifier no LED has changes nothing. With an identifier
  some LED has, it takes one LED out, and the survivors carry the identifiers 1, ..., n
  in list order with \<open>nextLedId\<close> n + 1, n the new size. The LED taken out is the
  first one with that identifier: when it stands at position k, the new list is the old
  one without position k, in the old order, each LED changed only in its identifier.
\<close>

theorem C4_removeLED:
  "(i \<notin> getId ` set (leds ui) \<longrightarrow> removeLED i ui = ui)
   \<and> (i \<in> getId ` set (leds ui) \<longrightarrow>
        length (leds (removeLED i ui)) + 1 = length (leds ui)
        \<and> map getId (leds (removeLED i ui)) = [1..int (length (leds (removeLED i ui)))]
        \<and> nextLedId (removeLED i ui) = int (length (leds (removeLED i ui))) + 1)
   \<and> (k < length (leds ui) \<and> getId (leds ui ! k) = i \<and> (\<forall>j<k. getId (leds ui ! j) \<noteq> i) \<longrightarrow>
        leds (removeLED i ui)
          = map (\<lambda>(j, led). setId j led)
              (zip [1..int (length (leds ui)) - 1] (take k (leds ui) @ drop (Suc k) (leds ui))))"
proof -
  have absent: "i \<notin> getId ` set (leds ui) \<longrightarrow> removeLED i ui = ui"
    by (simp add: removeLED_def findLEDById_None [symmetric])
  have present: "i \<in> getId ` set (leds ui) \<longrightarrow>
        length (leds (removeLED i ui)) + 1 = length (leds ui)
        \<and> map getId (leds (removeLED i ui)) = [1..int (length (leds (removeLED i ui)))]
        \<and> nextLedId (removeLED i ui) = int (length (leds (removeLED i ui))) + 1"
  proof
    assume "i \<in> getId ` set (leds ui)"
    then have "findLEDById i (leds ui) \<noteq> None" by (simp add: findLEDById_None)
    then obtain m where m: "findLEDById i (leds ui) = Some m" by blast
    then have lt: "m < length (leds ui)" by (simp add: findLEDById_Some)
    let ?rest = "ui\<lparr>leds := take m (leds ui) @ drop (Suc m) (leds ui)\<rparr>"
    have r: "removeLED i ui = reassignLEDIds ?rest"
      by (simp add: removeLED_def m)
    have len: "length (leds ?rest) + 1 = length (leds ui)"
      using lt by (simp add: min_def)
    have "ids_sequential (reassignLEDIds ?rest)" by (rule ids_sequential_reassign)
    then show "length (leds (removeLED i ui)) + 1 = length (leds ui)
        \<and> map getId (leds (removeLED i ui)) = [1..int (length (leds (removeLED i ui)))]
        \<and> nextLedId (removeLED i ui) = int (length (leds (removeLED i ui))) + 1"
      unfolding r using len by (simp add: ids_sequential_def)
  qed
  have order: "k < length (leds ui) \<and> getId (leds ui ! k) = i \<and> (\<forall>j<k. getId (leds ui ! j) \<noteq> i) \<longrightarrow>
        leds (removeLED i ui)
          = map (\<lambda>(j, led). setId j led)
              (zip [1..int (length (leds ui)) - 1] (take k (leds ui) @ drop (Suc k) (leds ui)))"
  proof
    assume "k < length (leds ui) \<and> getId (leds ui ! k) = i \<and> (\<forall>j<k. getId (leds ui ! j) \<noteq> i)"
    then have "findLEDById i (leds ui) = Some k" by (simp add: findLEDById_first)
    then show "leds (removeLED i ui)
          = map (\<lambda>(j, led). setId j led)
              (zip [1..int (length (leds ui)) - 1] (take k (leds ui) @ drop (Suc k) (leds ui)))"
      by (simp add: leds_removeLED)
  qed
  from absent present order show ?thesis by blast
qed

theorem C4_witness:
  "2 \<in> getId ` set (leds three_leds)
   \<and> getId (leds three_leds ! 1) = 2 \<and> getId (leds three_leds ! 0) \<noteq> 2
   \<and> map getId (leds (removeLED 2 three_leds)) = [1, 2]
   \<and> nextLedId (removeLED 2 three_leds) = 3
   \<and> leds (removeLED 2 three_leds)
       = [setId 1 (leds three_leds ! 0), setId 2 (leds three_leds ! 2)]
   \<and> 7 \<notin> getId ` set (leds three_leds)
   \<and> removeLED 7 three_leds = three_leds"
proof -
  have h: "2 \<in> getId ` set (leds three_leds) \<and> 7 \<notin> getId ` set (leds three_leds)
      \<and> (1::nat) < length (leds three_leds)
      \<and> getId (leds three_leds ! 1) = 2 \<and> (\<forall>j<(1::nat). getId (leds three_leds ! j) \<noteq> 2)
      \<and> getId (leds three_leds ! 0) \<noteq> 2
      \<and> length (leds three_leds) = 3"
    by (simp add: three_leds_eq getId_def)
  have u: "[1..int (length (leds three_leds)) - 1] = [1, 2]"
    using h by (simp add: upto_rec1)
  have s: "take 1 (leds three_leds) @ drop (Suc 1) (leds three_leds)
             = [leds three_leds ! 0, leds three_leds ! 2]"
    by (simp add: three_leds_eq)
  from h C4_removeLED [of 2 three_leds 1]
  have p1: "length (leds (removeLED 2 three_leds)) + 1 = length (leds three_leds)"
    and p2: "map getId (leds (removeLED 2 three_leds))
            = [1..int (length (leds (removeLED 2 three_leds)))]"
    and p3: "nextLedId (removeLED 2 three_leds)
            = int (length (leds (removeLED 2 three_leds))) + 1"
    and p4: "leds (removeLED 2 three_leds)
          = map (\<lambda>(j, led). setId j led)
              (zip [1..int (length (leds three_leds)) - 1]
                   (take 1 (leds three_leds) @ drop (Suc 1) (leds three_leds)))"
    by blast+
  from p1 h have l: "length (leds (removeLED 2 three_leds)) = 2" by simp
  have u2: "[1..int (length (leds (removeLED 2 three_leds)))] = [1, 2]"
    by (simp add: l upto_rec1)
  have w1: "map getId (leds (removeLED 2 three_leds)) = [1, 2]"
    by (simp only: p2 u2)
  have w2: "nextLedId (removeLED 2 three_leds) = 3"
    by (simp add: p3 l)
  have w3: "leds (removeLED 2 three_leds)
       = [setId 1 (leds three_leds ! 0), setId 2 (leds three_leds ! 2)]"
    by (simp only: p4 u s) simp
  from h C4_removeLED [of 7 three_leds 0]
  have w4: "removeLED 7 three_leds = three_leds" by blast
  from h w1 w2 w3 w4 show ?thesis by blast
qed

text \<open>
  C6, as the code has it. \<open>changeAllLEDsColor\<close> fails on an empty collection and
  fails when no LED is on, changing nothing. Otherwise the colour dialog opens, and the
  LED timers that expire while it is open act on the collection. A valid colour from
  the picker then becomes the colour of every LED that is on when the dialog has
  closed, while the LEDs that are off at that moment stay as they are; with an invalid
  colour (the pick was cancelled) the operation itself changes no LED, and the
  collection is as those expiries left it. With no expiry during the dialog that is the
  collection the operation started from.
\<close>

theorem C6_changeAllLEDsColor:
  "(leds ui = [] \<longrightarrow> changeAllLEDsColor during c ui = (Some NoLEDsAvailable, ui))
   \<and> (leds ui \<noteq> [] \<and> \<not> list_ex isOn (leds ui) \<longrightarrow>
        changeAllLEDsColor during c ui = (Some NoLEDOn, ui))
   \<and> (leds ui \<noteq> [] \<and> list_ex isOn (leds ui) \<and> isValid c \<longrightarrow>
        fst (changeAllLEDsColor during c ui) = None
        \<and> length (leds (snd (changeAllLEDsColor during c ui))) = length (leds ui)
        \<and> nextLedId (snd (changeAllLEDsColor during c ui)) = nextLedId ui
        \<and> (\<forall>k < length (leds ui).
              (isOn (leds (while_dialog_open during ui) ! k) \<longrightarrow>
                 leds (snd (changeAllLEDsColor during c ui)) ! k
                   = setColor c (leds (while_dialog_open during ui) ! k)
                 \<and> currentColor (leds (snd (changeAllLEDsColor during c ui)) ! k) = c)
              \<and> (\<not> isOn (leds (while_dialog_open during ui) ! k) \<longrightarrow>
                   leds (snd (changeAllLEDsColor during c ui)) ! k
                     = leds (while_dialog_open during ui) ! k)))
   \<and> (leds ui \<noteq> [] \<and> list_ex isOn (leds ui) \<and> \<not> isValid c \<longrightarrow>
        changeAllLEDsColor during c ui = (None, while_dialog_open during ui))
   \<and> while_dialog_open [] ui = ui"
proof -
  have frame: "length (leds (while_dialog_open during ui)) = length (leds ui)"
    and next_id: "nextLedId (while_dialog_open during ui) = nextLedId ui"
    by (simp_all add: while_dialog_open_frame)
  show ?thesis
    by (simp add: changeAllLEDsColor_def Let_def frame next_id setColor_def)
qed

theorem C6_witness:
  "leds new_UserInterface = []
   \<and> changeAllLEDsColor [] blue new_UserInterface = (Some NoLEDsAvailable, new_UserInterface)
   \<and> leds all_off_leds \<noteq> [] \<and> \<not> list_ex isOn (leds all_off_leds)
   \<and> changeAllLEDsColor [] blue all_off_leds = (Some NoLEDOn, all_off_leds)
   \<and> leds three_leds \<noteq> [] \<and> list_ex isOn (leds three_leds) \<and> isValid blue
   \<and> fst (changeAllLEDsColor [OffTimerFired 1] blue three_leds) = None
   \<and> currentColor (leds (snd (changeAllLEDsColor [OffTimerFired 1] blue three_leds)) ! 0) = blue
   \<and> leds (snd (changeAllLEDsColor [OffTimerFired 1] blue three_leds)) ! 1
       = turnOff (leds three_leds ! 1)
   \<and> leds (snd (changeAllLEDsColor [OffTimerFired 1] blue three_leds)) ! 2 = leds three_leds ! 2
   \<and> leds all_on_leds \<noteq> [] \<and> list_ex isOn (leds all_on_leds)
   \<and> currentColor (leds (snd (changeAllLEDsColor [] blue all_on_leds)) ! 0) = blue
   \<and> currentColor (leds (snd (changeAllLEDsColor [] blue all_on_leds)) ! 1) = blue
   \<and> currentColor (leds (snd (changeAllLEDsColor [] blue all_on_leds)) ! 2) = blue
   \<and> \<not> isValid Invalid
   \<and> changeAllLEDsColor [] Invalid all_on_leds = (None, all_on_leds)
   \<and> changeAllLEDsColor [OffTimerFired 1] Invalid three_leds
       = (None, on_led 1 turnOff three_leds)"
proof -
  let ?d = "[OffTimerFired 1]"
  have e: "leds new_UserInterface = []"
    by (simp add: new_UserInterface_def)
  have f: "leds all_off_leds \<noteq> [] \<and> \<not> list_ex isOn (leds all_off_leds)"
    by (simp add: all_off_leds_def ui_defs led_defs)
  have v: "isValid blue \<and> \<not> isValid Invalid"
    by (simp add: isValid_def blue_def)
  have t: "leds three_leds \<noteq> [] \<and> list_ex isOn (leds three_leds)
      \<and> length (leds three_leds) = 3"
    by (simp add: three_leds_eq isOn_def red_def white_def transparent_def)
  have d: "while_dialog_open ?d three_leds = on_led 1 turnOff three_leds"
    by (simp add: three_leds_eq on_led_def offTimer_timeout_def)
  have td: "isOn (leds (while_dialog_open ?d three_leds) ! 0)
      \<and> \<not> isOn (leds (while_dialog_open ?d three_leds) ! 1)
      \<and> leds (while_dialog_open ?d three_leds) ! 1 = turnOff (leds three_leds ! 1)
      \<and> \<not> isOn (leds (while_dialog_open ?d three_leds) ! 2)
      \<and> leds (while_dialog_open ?d three_leds) ! 2 = leds three_leds ! 2"
    by (simp add: three_leds_eq on_led_def offTimer_timeout_def turnOff_def setColor_def
          timer_stop_def isOn_def red_def white_def transparent_def)
  have o: "leds all_on_leds \<noteq> [] \<and> list_ex isOn (leds all_on_leds)
      \<and> length (leds all_on_leds) = 3
      \<and> isOn (leds all_on_leds ! 0) \<and> isOn (leds all_on_leds ! 1) \<and> isOn (leds all_on_leds ! 2)"
    by (simp add: all_on_leds_eq isOn_def red_def white_def transparent_def)
  from e C6_changeAllLEDsColor [of new_UserInterface "[]" blue]
  have w1: "changeAllLEDsColor [] blue new_UserInterface
              = (Some NoLEDsAvailable, new_UserInterface)"
    by blast
  from f C6_changeAllLEDsColor [of all_off_leds "[]" blue]
  have w2: "changeAllLEDsColor [] blue all_off_leds = (Some NoLEDOn, all_off_leds)"
    by blast
  from t v C6_changeAllLEDsColor [of three_leds ?d blue]
  have w3: "fst (changeAllLEDsColor ?d blue three_leds) = None"
    and a3: "\<forall>k < length (leds three_leds).
              (isOn (leds (while_dialog_open ?d three_leds) ! k) \<longrightarrow>
                 currentColor (leds (snd (changeAllLEDsColor ?d blue three_leds)) ! k) = blue)
              \<and> (\<not> isOn (leds (while_dialog_open ?d three_leds) ! k) \<longrightarrow>
                   leds (snd (changeAllLEDsColor ?d blue three_leds)) ! k
                     = leds (while_dialog_open ?d three_leds) ! k)"
    by blast+
  from t have l3: "0 < length (leds three_leds)" "1 < length (leds three_leds)"
    "2 < length (leds three_leds)"
    by simp_all
  from a3 l3(1) td
  have w4a: "currentColor (leds (snd (changeAllLEDsColor ?d blue three_leds)) ! 0) = blue"
    by blast
  from a3 l3(2) td
  have "leds (snd (changeAllLEDsColor ?d blue three_leds)) ! 1
          = leds (while_dialog_open ?d three_leds) ! 1"
    by blast
  with td
  have w4b: "leds (snd (changeAllLEDsColor ?d blue three_leds)) ! 1 = turnOff (leds three_leds ! 1)"
    by simp
  from a3 l3(3) td
  have "leds (snd (changeAllLEDsColor ?d blue three_leds)) ! 2
          = leds (while_dialog_open ?d three_leds) ! 2"
    by blast
  with td
  have w4c: "leds (snd (changeAllLEDsColor ?d blue three_leds)) ! 2 = leds three_leds ! 2"
    by simp
  note w4 = w4a w4b w4c
  from o v C6_changeAllLEDsColor [of all_on_leds "[]" blue]
  have a5: "\<forall>k < length (leds all_on_leds).
              isOn (leds (while_dialog_open [] all_on_leds) ! k) \<longrightarrow>
                 currentColor (leds (snd (changeAllLEDsColor [] blue all_on_leds)) ! k) = blue"
    by blast
  from o have l5: "0 < length (leds all_on_leds)" "1 < length (leds all_on_leds)"
    "2 < length (leds all_on_leds)"
    and o5: "isOn (leds (while_dialog_open [] all_on_leds) ! 0)"
    "isOn (leds (while_dialog_open [] all_on_leds) ! 1)"
    "isOn (leds (while_dialog_open [] all_on_leds) ! 2)"
    by simp_all
  from a5 l5(1) o5(1)
  have w5a: "currentColor (leds (snd (changeAllLEDsColor [] blue all_on_leds)) ! 0) = blue"
    by blast
  from a5 l5(2) o5(2)
  have w5b: "currentColor (leds (snd (changeAllLEDsColor [] blue all_on_leds)) ! 1) = blue"
    by blast
  from a5 l5(3) o5(3)
  have w5c: "currentColor (leds (snd (changeAllLEDsColor [] blue all_on_leds)) ! 2) = blue"
    by blast
  note w5 = w5a w5b w5c
  from o v C6_changeAllLEDsColor [of all_on_leds "[]" Invalid]
  have w6: "changeAllLEDsColor [] Invalid all_on_leds = (None, all_on_leds)"
    by simp
  from t v C6_changeAllLEDsColor [of three_leds ?d Invalid]
  have "changeAllLEDsColor ?d Invalid three_leds = (None, while_dialog_open ?d three_leds)"
    by blast
  then have w7: "changeAllLEDsColor ?d Invalid three_leds = (None, on_led 1 turnOff three_leds)"
    by (simp only: d)
  from e f v t o w1 w2 w3 w4 w5 w6 w7 show ?thesis by blast
qed

text \<open>
  C6 as stated fails. The second of the three LEDs is on when the operation starts and
  its one-second timer expires while the colour dialog is open: with blue picked it
  ends off and transparent, not blue, and with the pick cancelled its colour has
  changed from white to transparent.
\<close>

theorem C6_counterexample:
  "leds three_leds \<noteq> [] \<and> list_ex isOn (leds three_leds) \<and> isValid blue
   \<and> isOn (leds three_leds ! 1) \<and> currentColor (leds three_leds ! 1) = white
   \<and> active (offTimer (leds three_leds ! 1))
   \<and> fst (changeAllLEDsColor [OffTimerFired 1] blue three_leds) = None
   \<and> currentColor (leds (snd (changeAllLEDsColor [OffTimerFired 1] blue three_leds)) ! 1)
       = transparent
   \<and> \<not> isValid Invalid
   \<and> currentColor (leds (snd (changeAllLEDsColor [OffTimerFired 1] Invalid three_leds)) ! 1)
       = transparent"
  by (simp add: three_leds_eq changeAllLEDsColor_def on_led_def offTimer_timeout_def
        turnOff_def setColor_def isOn_def isValid_def blue_def red_def white_def
        transparent_def Let_def)

end
